theory Spec2Isabelle
  imports Main "HOL-Library.AList"
begin

section \<open>MySQL authentication of salt: a shallow embedding\<close>

text \<open>
  The development embeds the two modules \<^verbatim>\<open>salt/utils/mysql.py\<close> (option resolution
  and connection opening) and \<^verbatim>\<open>salt/auth/mysql.py\<close> (the \<^verbatim>\<open>auth\<close> entry point).

  Python values are a datatype, dictionaries are association lists in insertion order,
  exceptions are the left summand of a sum type, and everything a function does besides
  returning (log lines, calls into the database driver) is collected in a trace of
  events that the function returns next to its result.  The database driver and the two
  module-level \<^verbatim>\<open>__opts__\<close> globals are not part of the repository: they are
  parameters of the model, gathered in the record \<open>world\<close>.

  The file \<^verbatim>\<open>salt/auth/mysql.py\<close> does not compile as it stands: line 72 reads
  \<^verbatim>\<open>if conn is False\<close> without its colon.  The module as it stands is \<open>auth_shipped\<close>:
  a call raises \<^verbatim>\<open>SyntaxError\<close>.  \<open>auth\<close> is the function the file defines once that
  colon is supplied, and a statement about \<open>auth\<close> is a statement about that reading.
\<close>

subsection \<open>Python values and dictionaries\<close>

datatype pyval =
    PNone
  | PBool bool
  | PInt int
  | PStr string
  | PList "pyval list"
  | PDict "(string \<times> pyval) list"

text \<open>
  A dictionary with string keys: the list holds the items in insertion order, and a
  well-formed dictionary has pairwise distinct keys.  Lookup is \<open>map_of\<close>; assignment
  \<^verbatim>\<open>d[k] = v\<close> replaces the value of an existing key in place and appends a new key
  at the end, which is \<open>AList.update\<close>.  Iteration follows the list, as it follows
  insertion order in Python 3.7 and later; under an older interpreter the order of
  iteration differs, which changes the order of the log lines and nothing else.
\<close>

type_synonym dict = "(string \<times> pyval) list"

datatype exn =
    KeyError string
  | IndexError
  | ValueError
  | TypeError
  | AttributeError
  | NameError string
  | SyntaxError
  | OperationalError string
  | DriverError string
  | Unmodelled

text \<open>
  \<open>OperationalError msg\<close> is the driver's \<^verbatim>\<open>OperationalError\<close>, \<open>msg\<close> its printed
  form; \<open>DriverError msg\<close> stands for every other exception class of the driver
  (\<^verbatim>\<open>ProgrammingError\<close>, \<^verbatim>\<open>InterfaceError\<close>, ...).  \<open>Unmodelled\<close> is raised by the
  model of \<^verbatim>\<open>str.format\<close> below on replacement fields outside the fragment it covers.
\<close>

definition contains :: "dict \<Rightarrow> string \<Rightarrow> bool" where
  \<comment> \<open>\<^verbatim>\<open>k in d\<close>\<close>
  "contains d k = (map_of d k \<noteq> None)"

definition getitem :: "dict \<Rightarrow> string \<Rightarrow> exn + pyval" where
  \<comment> \<open>\<^verbatim>\<open>d[k]\<close>, raising \<^verbatim>\<open>KeyError\<close> on a missing key\<close>
  "getitem d k = (case map_of d k of None \<Rightarrow> Inl (KeyError k) | Some v \<Rightarrow> Inr v)"

definition setitem :: "dict \<Rightarrow> string \<Rightarrow> pyval \<Rightarrow> dict" where
  \<comment> \<open>\<^verbatim>\<open>d[k] = v\<close>\<close>
  "setitem d k v = AList.update k v d"

definition dict_update :: "dict \<Rightarrow> dict \<Rightarrow> dict" where
  \<comment> \<open>\<^verbatim>\<open>d.update(other)\<close>: the items of \<open>other\<close> are assigned in order\<close>
  "dict_update d other = fold (\<lambda>(k, v) acc. setitem acc k v) other d"

definition dict_get :: "(string \<times> 'v) list \<Rightarrow> string option \<Rightarrow> 'v \<Rightarrow> 'v" where
  \<comment> \<open>\<^verbatim>\<open>d.get(k, default)\<close>; the key \<^verbatim>\<open>None\<close> is never a key of a string-keyed dictionary\<close>
  "dict_get d key dflt =
     (case key of
        None \<Rightarrow> dflt
      | Some k \<Rightarrow> (case map_of d k of None \<Rightarrow> dflt | Some v \<Rightarrow> v))"

text \<open>
  The two operations \<open>get_mysql_options\<close> applies to the subsection of the
  configuration, on any value: \<^verbatim>\<open>k in v\<close> looks for a key in a dictionary, for a
  substring in a string and for an equal element in a list, and raises \<^verbatim>\<open>TypeError\<close>
  on \<^verbatim>\<open>None\<close>, a Boolean or a number; \<^verbatim>\<open>v[k]\<close> with a string \<open>k\<close> is defined on
  dictionaries only.
\<close>

fun substring :: "string \<Rightarrow> string \<Rightarrow> bool" where
  "substring s [] = (s = [])"
| "substring s (c # cs) = (take (length s) (c # cs) = s \<or> substring s cs)"

fun py_in :: "string \<Rightarrow> pyval \<Rightarrow> exn + bool" where
  "py_in k (PDict d) = Inr (contains d k)"
| "py_in k (PStr s) = Inr (substring k s)"
| "py_in k (PList xs) = Inr (PStr k \<in> set xs)"
| "py_in k _ = Inl TypeError"

fun py_getitem :: "pyval \<Rightarrow> string \<Rightarrow> exn + pyval" where
  "py_getitem (PDict d) k = getitem d k"
| "py_getitem _ k = Inl TypeError"

subsection \<open>Results with a trace\<close>

datatype level = Debug | Error

type_synonym conn = nat
type_synonym cursor = nat

datatype event =
    Log level string
  | DbConnect "pyval list" "exn + conn"
  | DbCursor conn
  | DbExecute cursor string
  | DbClose conn

text \<open>
  \<open>DbConnect args r\<close> records a call \<^verbatim>\<open>MySQLdb.connect(*args)\<close> and what it gave,
  \<open>DbCursor c\<close> a call \<^verbatim>\<open>c.cursor()\<close>, \<open>DbExecute cur q\<close> a call \<^verbatim>\<open>cur.execute(q)\<close>
  and \<open>DbClose c\<close> a call \<^verbatim>\<open>c.close()\<close>.

  A computation returns its result, or the exception it raised, together with the
  events it produced up to that point.
\<close>

type_synonym 'a io = "(exn + 'a) \<times> event list"

definition io_return :: "'a \<Rightarrow> 'a io" where
  "io_return x = (Inr x, [])"

definition io_raise :: "exn \<Rightarrow> 'a io" where
  "io_raise e = (Inl e, [])"

definition io_lift :: "exn + 'a \<Rightarrow> 'a io" where
  "io_lift r = (r, [])"

definition io_emit :: "event \<Rightarrow> unit io" where
  "io_emit ev = (Inr (), [ev])"

definition io_bind :: "'a io \<Rightarrow> ('a \<Rightarrow> 'b io) \<Rightarrow> 'b io" where
  "io_bind m f =
     (case m of
        (Inl e, t) \<Rightarrow> (Inl e, t)
      | (Inr x, t) \<Rightarrow> (case f x of (r, t') \<Rightarrow> (r, t @ t')))"

subsection \<open>\<^verbatim>\<open>salt/utils/mysql.py\<close>: option resolution\<close>

definition builtin_defaults :: dict where
  "builtin_defaults =
     [(''hostname'', PStr ''localhost''),
      (''username'', PStr ''salt''),
      (''password'', PStr ''salt''),
      (''database'', PStr ''salt''),
      (''port'', PInt 3306),
      (''unix_socket'', PStr ''/tmp/mysql.sock''),
      (''charset'', PStr ''utf8''),
      (''ssl'', PDict [])]"

definition get_mysql_defaults :: "dict option \<Rightarrow> dict" where
  \<comment> \<open>\<^verbatim>\<open>_get_mysql_defaults(custom_defaults=None)\<close>\<close>
  "get_mysql_defaults custom_defaults =
     (let defaults = builtin_defaults
      in case custom_defaults of
           None \<Rightarrow> defaults
         | Some cd \<Rightarrow> dict_update defaults cd)"

text \<open>
  The loop \<^verbatim>\<open>for attr in defaults\<close> of \<^verbatim>\<open>get_mysql_options\<close>, over the keys that are
  left; \<open>options\<close> is the dictionary \<^verbatim>\<open>_options\<close> built so far and \<open>opts\<close> the
  subsection \<^verbatim>\<open>_opts\<close> of the configuration.
\<close>

fun options_loop :: "string list \<Rightarrow> dict \<Rightarrow> pyval \<Rightarrow> dict \<Rightarrow> dict io" where
  "options_loop [] defaults opts options = io_return options"
| "options_loop (attr # rest) defaults opts options =
     io_bind (io_lift (py_in attr opts)) (\<lambda>present.
     if \<not> present then
       io_bind (io_emit (Log Debug (''Using default for MySQL '' @ attr))) (\<lambda>_.
       io_bind (io_lift (getitem defaults attr)) (\<lambda>v.
       options_loop rest defaults opts (setitem options attr v)))
     else
       io_bind (io_lift (py_getitem opts attr)) (\<lambda>v.
       options_loop rest defaults opts (setitem options attr v)))"

text \<open>
  The configuration \<^verbatim>\<open>__opts__\<close> is a dictionary; what it holds under the options key
  is any value: a mapping of fields as in the module's documentation, or \<^verbatim>\<open>None\<close> for
  an empty block of the configuration file, or a scalar or a list.
  \<open>get_mysql_options\<close> takes the module-level \<^verbatim>\<open>__opts__\<close> of \<^verbatim>\<open>salt.utils.mysql\<close> as
  its first argument \<open>module_opts\<close>; the three others are the parameters of the Python
  function, each with its default \<^verbatim>\<open>None\<close>.  The parameter \<open>options\<close> is never read by
  the body.
\<close>

definition get_mysql_options ::
  "dict \<Rightarrow> string option \<Rightarrow> dict option \<Rightarrow> dict option \<Rightarrow> dict option io" where
  "get_mysql_options module_opts options_key options custom_defaults =
     (let defaults = get_mysql_defaults custom_defaults;
          opts = dict_get module_opts options_key (PDict [])
      in io_bind (options_loop (map fst defaults) defaults opts []) (\<lambda>res.
         io_return (Some res)))"

subsection \<open>\<^verbatim>\<open>str.format\<close> with positional arguments\<close>

text \<open>
  The template is scanned from left to right, as Python does.  \<^verbatim>\<open>{{\<close> and \<^verbatim>\<open>}}\<close>
  stand for one brace.  A replacement field is the text between \<^verbatim>\<open>{\<close> and the next
  \<^verbatim>\<open>}\<close>: empty for automatic numbering, a decimal number for an explicit position.
  Any other field name is looked up among the keyword arguments, of which
  \<^verbatim>\<open>auth\<close> passes none, and raises \<^verbatim>\<open>KeyError\<close>.  The first error met stops the scan.
  Fields with an attribute or index lookup, a conversion or a format specification (a
  field text containing one of \<^verbatim>\<open>. [ ! : {\<close>) are outside the modelled fragment:
  where Python renders such a field or raises, the scan stops with the marker
  \<open>Unmodelled\<close>.  No statement below is about a template with such a field.
\<close>

datatype numbering = Unset | Auto nat | Manual

fun split_field :: "string \<Rightarrow> (string \<times> string) option" where
  "split_field [] = None"
| "split_field (c # cs) =
     (if c = CHR ''}'' then Some ([], cs)
      else case split_field cs of
             None \<Rightarrow> None
           | Some (f, rest) \<Rightarrow> Some (c # f, rest))"

definition is_digit :: "char \<Rightarrow> bool" where
  "is_digit c = (c \<in> set ''0123456789'')"

definition decimal :: "string \<Rightarrow> nat" where
  "decimal ds = foldl (\<lambda>n c. 10 * n + (of_char c - 48)) 0 ds"

definition field_index :: "numbering \<Rightarrow> string \<Rightarrow> exn + (nat \<times> numbering)" where
  "field_index m f =
     (if list_ex (\<lambda>c. c \<in> set ''.[!:{'') f then Inl Unmodelled
      else if f = [] then
        (case m of
           Manual \<Rightarrow> Inl ValueError
         | Unset \<Rightarrow> Inr (0, Auto 1)
         | Auto n \<Rightarrow> Inr (n, Auto (Suc n)))
      else if list_all is_digit f then
        (case m of
           Auto n \<Rightarrow> Inl ValueError
         | _ \<Rightarrow> if decimal f > 9223372036854775807 then Inl ValueError
                else Inr (decimal f, Manual))
      else Inl (KeyError f))"

definition emit_text :: "string \<Rightarrow> exn + string \<Rightarrow> exn + string" where
  "emit_text s r = (case r of Inl e \<Rightarrow> Inl e | Inr out \<Rightarrow> Inr (s @ out))"

function format_scan :: "string list \<Rightarrow> numbering \<Rightarrow> string \<Rightarrow> exn + string" where
  "format_scan args m [] = Inr []"
| "format_scan args m (c # cs) =
     (if c = CHR ''{'' then
        (case cs of
           [] \<Rightarrow> Inl ValueError
         | c' # cs' \<Rightarrow>
             if c' = CHR ''{'' then emit_text ''{'' (format_scan args m cs')
             else
               (case split_field cs of
                  None \<Rightarrow> Inl ValueError
                | Some (f, rest) \<Rightarrow>
                    (case field_index m f of
                       Inl e \<Rightarrow> Inl e
                     | Inr (i, m') \<Rightarrow>
                         if i < length args
                         then emit_text (args ! i) (format_scan args m' rest)
                         else Inl IndexError)))
      else if c = CHR ''}'' then
        (case cs of
           [] \<Rightarrow> Inl ValueError
         | c' # cs' \<Rightarrow>
             if c' = CHR ''}'' then emit_text ''}'' (format_scan args m cs')
             else Inl ValueError)
      else emit_text [c] (format_scan args m cs))"
  by pat_completeness auto

lemma split_field_shorter: "split_field cs = Some (f, rest) \<Longrightarrow> length rest < length cs"
  by (induction cs arbitrary: f rest) (auto split: if_splits option.splits)

termination format_scan
  by (relation "measure (\<lambda>(args, m, s). length s)")
     (auto dest!: split_field_shorter simp del: split_field.simps)

definition py_format :: "string \<Rightarrow> string list \<Rightarrow> exn + string" where
  \<comment> \<open>\<^verbatim>\<open>template.format(*args)\<close>\<close>
  "py_format template args = format_scan args Unset template"

subsection \<open>The environment\<close>

text \<open>
  \<open>utils_opts\<close> is the global \<^verbatim>\<open>__opts__\<close> of the module \<^verbatim>\<open>salt.utils.mysql\<close> and
  \<open>auth_opts\<close> the global \<^verbatim>\<open>__opts__\<close> of \<^verbatim>\<open>salt.auth.mysql\<close>.  \<open>conn_cursor c\<close> is what
  \<^verbatim>\<open>c.cursor()\<close> gives, and \<open>cursor_execute cur q\<close> what \<^verbatim>\<open>cur.execute(q)\<close> does: it
  raises, or it completes and leaves \<^verbatim>\<open>cur.rowcount\<close> at the number returned.

  \<open>client\<close> is the outcome of the imports at the head of \<^verbatim>\<open>salt/utils/mysql.py\<close>
  (lines 39 to 55), with the function \<^verbatim>\<open>MySQLdb.connect\<close> they make available:
  \<^item> \<open>MySQLdb_client\<close>: the library MySQLdb was imported, and the name
    \<^verbatim>\<open>OperationalError\<close> comes from \<^verbatim>\<open>MySQLdb.connections\<close>: it is the class of the
    operational errors the driver raises;
  \<^item> \<open>PyMySQL_client\<close>: PyMySQL was imported and installed under the name MySQLdb, and
    the name \<^verbatim>\<open>OperationalError\<close> comes from \<^verbatim>\<open>MySQLdb.err\<close>.  That import loads the
    module \<^verbatim>\<open>err\<close> of PyMySQL a second time, under the alias, so the class bound to the
    name is not the class of the errors the driver raises, and an \<^verbatim>\<open>except\<close> clause
    that names it does not match them;
  \<^item> \<open>No_client\<close>: neither import succeeded, the module sets \<^verbatim>\<open>MySQLdb = None\<close> and
    the name \<^verbatim>\<open>OperationalError\<close> stays undefined.
\<close>

datatype client =
    MySQLdb_client "pyval list \<Rightarrow> exn + conn"
  | PyMySQL_client "pyval list \<Rightarrow> exn + conn"
  | No_client

record world =
  utils_opts :: dict
  auth_opts :: dict
  client :: client
  conn_cursor :: "conn \<Rightarrow> exn + cursor"
  cursor_execute :: "cursor \<Rightarrow> string \<Rightarrow> exn + int"

subsection \<open>\<^verbatim>\<open>salt/utils/mysql.py\<close>: opening the connection\<close>

datatype conn_result = ConnFalse | Conn conn

text \<open>
  The body of the \<^verbatim>\<open>try\<close> block of \<^verbatim>\<open>connect\<close>.  Python evaluates
  \<^verbatim>\<open>MySQLdb.connect\<close> first, then the seven arguments in order, then makes the call.
\<close>

definition connect_call :: "(pyval list \<Rightarrow> exn + conn) \<Rightarrow> dict \<Rightarrow> conn io" where
  "connect_call db_connect options =
     io_bind (io_lift (getitem options ''hostname'')) (\<lambda>hostname.
     io_bind (io_lift (getitem options ''username'')) (\<lambda>username.
     io_bind (io_lift (getitem options ''password'')) (\<lambda>password.
     io_bind (io_lift (getitem options ''database'')) (\<lambda>database.
     io_bind (io_lift (getitem options ''port'')) (\<lambda>port.
     io_bind (io_lift (getitem options ''unix_socket'')) (\<lambda>unix_socket.
     io_bind (io_lift (getitem options ''ssl'')) (\<lambda>ssl.
       (let args = [hostname, username, password, database, port, unix_socket, ssl];
            r = db_connect args
        in io_bind (io_emit (DbConnect args r)) (\<lambda>_. io_lift r)))))))))"

definition connect :: "world \<Rightarrow> dict option \<Rightarrow> conn_result io" where
  "connect w options =
     (case options of
        None \<Rightarrow>
          io_bind (io_emit (Log Debug ''No options passed for connection'')) (\<lambda>_.
          io_return ConnFalse)
      | Some opts \<Rightarrow>
          (case client w of
             No_client \<Rightarrow> io_raise (NameError ''OperationalError'')
           | MySQLdb_client db_connect \<Rightarrow>
               (case connect_call db_connect opts of
                  (Inr conn, t) \<Rightarrow> (Inr (Conn conn), t)
                | (Inl (OperationalError e), t) \<Rightarrow> (Inr ConnFalse, t @ [Log Error e])
                | (Inl other, t) \<Rightarrow> (Inl other, t))
           | PyMySQL_client db_connect \<Rightarrow>
               (case connect_call db_connect opts of
                  (Inr conn, t) \<Rightarrow> (Inr (Conn conn), t)
                | (Inl e, t) \<Rightarrow> (Inl e, t))))"

subsection \<open>\<^verbatim>\<open>salt/auth/mysql.py\<close>: the entry point\<close>

definition auth_defaults :: dict where
  \<open>auth_defaults =
     [(''auth_sql'',
       PStr ''SELECT username FROM users WHERE username = "{0}" AND password = SHA2("{1}", 256)'')]\<close>

text \<open>
  The module as shipped.  Line 72 reads \<^verbatim>\<open>if conn is False\<close> without its colon, so the
  compiler rejects the file: importing \<^verbatim>\<open>salt.auth.mysql\<close> raises \<^verbatim>\<open>SyntaxError\<close>
  before any statement of the module runs, and a caller that imports the module to call
  \<^verbatim>\<open>auth\<close> gets that exception whatever the environment and the arguments.
\<close>

definition auth_shipped :: "world \<Rightarrow> string \<Rightarrow> string \<Rightarrow> bool io" where
  "auth_shipped w username password = io_raise SyntaxError"

text \<open>
  The function \<^verbatim>\<open>auth\<close> as the file defines it once the colon missing from line 72 is
  supplied, which is the reading its indented body gives.
\<close>

definition auth :: "world \<Rightarrow> string \<Rightarrow> string \<Rightarrow> bool io" where
  "auth w username password =
     (let auth_options_key = ''mysql_auth''
      in io_bind (get_mysql_options (utils_opts w) (Some auth_options_key)
                    (Some (auth_opts w)) (Some auth_defaults)) (\<lambda>opts.
         case opts of
           None \<Rightarrow> io_return False
         | Some options \<Rightarrow>
             io_bind (connect w (Some options)) (\<lambda>conn.
             case conn of
               ConnFalse \<Rightarrow>
                 io_bind (io_emit (Log Error ''MySQL connection failed'')) (\<lambda>_.
                 io_return False)
             | Conn c \<Rightarrow>
                 io_bind (io_emit (DbCursor c)) (\<lambda>_.
                 io_bind (io_lift (conn_cursor w c)) (\<lambda>cur.
                 io_bind (io_lift (getitem options ''auth_sql'')) (\<lambda>template.
                 io_bind (case template of
                            PStr t \<Rightarrow> io_lift (py_format t [username, password])
                          | _ \<Rightarrow> io_raise AttributeError) (\<lambda>query.
                 io_bind (io_emit (DbExecute cur query)) (\<lambda>_.
                 io_bind (io_lift (cursor_execute w cur query)) (\<lambda>rowcount.
                 if rowcount = 1 then io_return True
                 else io_return False)))))))))"

subsection \<open>Notions used in the statements\<close>

text \<open>An optional dictionary argument read as a dictionary: \<^verbatim>\<open>None\<close> has no keys.\<close>

definition or_empty :: "dict option \<Rightarrow> dict" where
  "or_empty d = (case d of None \<Rightarrow> [] | Some x \<Rightarrow> x)"

fun is_log :: "event \<Rightarrow> bool" where
  "is_log (Log l s) = True"
| "is_log _ = False"

text \<open>A configuration whose subsection sets one recognised field and one unknown field.\<close>

definition example_opts :: dict where
  "example_opts =
     [(''mysql_auth'', PDict [(''hostname'', PStr ''db1''), (''comment'', PStr ''x'')])]"

text \<open>
  The fields of a subsection: the items of a mapping; any other value has none.
\<close>

fun fields_of :: "pyval \<Rightarrow> dict" where
  "fields_of (PDict d) = d"
| "fields_of _ = []"

fun is_mapping :: "pyval \<Rightarrow> bool" where
  "is_mapping (PDict d) = True"
| "is_mapping _ = False"

text \<open>A configuration whose subsection is an empty block of the configuration file.\<close>

definition empty_block_opts :: dict where
  "empty_block_opts = [(''mysql_auth'', PNone)]"



fun executed_queries :: "event list \<Rightarrow> string list" where
  "executed_queries [] = []"
| "executed_queries (DbExecute cur q # t) = q # executed_queries t"
| "executed_queries (_ # t) = executed_queries t"

fun is_connect :: "event \<Rightarrow> bool" where
  "is_connect (DbConnect args r) = True"
| "is_connect _ = False"

text \<open>What a run with the default options logs, passes to the driver, and asks.\<close>

definition default_log :: "event list" where
  "default_log =
     map (\<lambda>k. Log Debug (''Using default for MySQL '' @ k))
       [''hostname'', ''username'', ''password'', ''database'', ''port'', ''unix_socket'',
        ''charset'', ''ssl'', ''auth_sql'']"

definition default_connect_args :: "pyval list" where
  "default_connect_args =
     [PStr ''localhost'', PStr ''salt'', PStr ''salt'', PStr ''salt'', PInt 3306,
      PStr ''/tmp/mysql.sock'', PDict []]"

definition diana_query :: string where
  \<open>diana_query =
     ''SELECT username FROM users WHERE username = "diana" AND password = SHA2("secret", 256)''\<close>

text \<open>
  Environments for the concrete runs below.  All but the last have an empty
  configuration, so the options are the defaults.  In \<open>world_rows n\<close> every query leaves the row count at
  \<open>n\<close>; in \<open>world_diana\<close> the table holds the single user of the module's
  documentation; in \<open>world_refused\<close> and \<open>world_refused_fallback\<close> the server rejects
  the connection, the client being MySQLdb in the first and PyMySQL in the second; in
  \<open>world_query_fails\<close> the driver raises on \<^verbatim>\<open>execute\<close>; \<open>world_bad_template\<close>
  configures a template that names a third argument.
\<close>

definition world_rows :: "int \<Rightarrow> world" where
  "world_rows n =
     \<lparr>utils_opts = [], auth_opts = [],
      client = MySQLdb_client (\<lambda>args. Inr 1),
      conn_cursor = (\<lambda>c. Inr 1),
      cursor_execute = (\<lambda>cur q. Inr n)\<rparr>"

definition world_diana :: world where
  \<open>world_diana =
     \<lparr>utils_opts = [], auth_opts = [],
      client = MySQLdb_client (\<lambda>args. Inr 1),
      conn_cursor = (\<lambda>c. Inr 1),
      cursor_execute = (\<lambda>cur q.
        Inr (if q = diana_query then 1 else 0))\<rparr>\<close>

definition world_refused :: world where
  "world_refused =
     \<lparr>utils_opts = [], auth_opts = [],
      client = MySQLdb_client (\<lambda>args. Inl (OperationalError ''(1045, Access denied)'')),
      conn_cursor = (\<lambda>c. Inr 1),
      cursor_execute = (\<lambda>cur q. Inr 0)\<rparr>"

definition world_refused_fallback :: world where
  "world_refused_fallback =
     \<lparr>utils_opts = [], auth_opts = [],
      client = PyMySQL_client (\<lambda>args. Inl (OperationalError ''(1045, Access denied)'')),
      conn_cursor = (\<lambda>c. Inr 1),
      cursor_execute = (\<lambda>cur q. Inr 0)\<rparr>"

definition world_query_fails :: world where
  "world_query_fails =
     \<lparr>utils_opts = [], auth_opts = [],
      client = MySQLdb_client (\<lambda>args. Inr 1),
      conn_cursor = (\<lambda>c. Inr 1),
      cursor_execute = (\<lambda>cur q. Inl (DriverError ''ProgrammingError''))\<rparr>"

definition world_bad_template :: world where
  "world_bad_template =
     \<lparr>utils_opts = [(''mysql_auth'', PDict [(''auth_sql'', PStr ''SELECT {2}'')])],
      auth_opts = [],
      client = MySQLdb_client (\<lambda>args. Inr 1),
      conn_cursor = (\<lambda>c. Inr 1),
      cursor_execute = (\<lambda>cur q. Inr 1)\<rparr>"

section \<open>The option resolver\<close>

subsection \<open>Dictionaries\<close>

lemmas io_defs = io_bind_def io_emit_def io_lift_def io_return_def io_raise_def
lemmas dict_defs = dict_update_def setitem_def dict_get_def contains_def getitem_def
lemmas resolver_defs = get_mysql_options_def get_mysql_defaults_def builtin_defaults_def
  auth_defaults_def or_empty_def Let_def
lemmas fmt_defs = py_format_def field_index_def emit_text_def is_digit_def decimal_def
lemmas auth_defs = auth_def connect_def connect_call_def

lemma setitem_fresh: "k \<notin> fst ` set d \<Longrightarrow> setitem d k v = d @ [(k, v)]"
  unfolding setitem_def by (induction d) auto

lemma map_of_setitem: "map_of (setitem d k v) = (map_of d)(k \<mapsto> v)"
  unfolding setitem_def by (simp add: update_conv')

lemma distinct_setitem: "distinct (map fst d) \<Longrightarrow> distinct (map fst (setitem d k v))"
  unfolding setitem_def by (rule distinct_update)

lemma distinct_dict_update:
  "distinct (map fst d) \<Longrightarrow> distinct (map fst (dict_update d other))"
  unfolding dict_update_def
  by (induction other arbitrary: d) (auto simp: distinct_setitem)

lemma map_of_dict_update:
  "map_of (dict_update d other) = map_of d ++ map_of (rev other)"
  unfolding dict_update_def
proof (induction other arbitrary: d)
  case Nil
  show ?case by simp
next
  case (Cons a other)
  obtain k v where a: "a = (k, v)" by (cases a)
  show ?case
    by (simp add: a Cons.IH map_of_setitem map_add_def fun_eq_iff split: option.splits)
qed

lemma map_of_rev_distinct: "distinct (map fst xs) \<Longrightarrow> map_of (rev xs) = map_of xs"
  by (simp add: map_of_inject_set distinct_map)

lemma contains_iff: "contains d k \<longleftrightarrow> k \<in> fst ` set d"
  unfolding contains_def by (simp add: map_of_eq_None_iff)

lemma keys_dict_update: "fst ` set (dict_update d other) = fst ` set d \<union> fst ` set other"
proof -
  have "dom (map_of (dict_update d other)) = dom (map_of (rev other)) \<union> dom (map_of d)"
    by (simp add: map_of_dict_update)
  then show ?thesis
    by (simp only: dom_map_of_conv_image_fst set_rev Un_commute)
qed

lemma contains_dict_update:
  "contains (dict_update d other) k \<longleftrightarrow> contains d k \<or> contains other k"
  by (simp add: contains_iff keys_dict_update)

lemma contains_defaults:
  "contains (get_mysql_defaults cd) k \<longleftrightarrow> contains builtin_defaults k \<or> contains (or_empty cd) k"
  by (cases cd) (simp_all add: get_mysql_defaults_def or_empty_def contains_dict_update, simp add: contains_def)

lemma distinct_builtin: "distinct (map fst builtin_defaults)"
  unfolding builtin_defaults_def by simp

lemma distinct_defaults: "distinct (map fst (get_mysql_defaults cd))"
  unfolding get_mysql_defaults_def
  by (cases cd) (simp_all add: distinct_builtin distinct_dict_update)

lemma map_of_defaults:
  "distinct (map fst (or_empty cd)) \<Longrightarrow>
   map_of (get_mysql_defaults cd) = map_of builtin_defaults ++ map_of (or_empty cd)"
  by (cases cd) (simp_all add: get_mysql_defaults_def or_empty_def map_of_dict_update map_of_rev_distinct)

lemma py_in_False: "py_in k sub = Inr False \<Longrightarrow> map_of (fields_of sub) k = None"
  by (cases sub) (simp_all add: contains_def)

lemma py_getitem_Inr: "py_getitem sub k = Inr v \<Longrightarrow> map_of (fields_of sub) k = Some v"
  by (cases sub) (simp_all add: getitem_def split: option.splits)

subsection \<open>The loop over the default keys\<close>

lemma io_bind_logs:
  assumes "list_all is_log (snd m)" and "\<And>x. list_all is_log (snd (f x))"
  shows "list_all is_log (snd (io_bind m f))"
proof (cases m)
  case (Pair r t)
  show ?thesis
  proof (cases r)
    case (Inl e)
    with Pair assms(1) show ?thesis by (simp add: io_bind_def)
  next
    case (Inr x)
    obtain r' t' where f: "f x = (r', t')" by (cases "f x")
    with assms(2)[of x] have "list_all is_log t'" by simp
    with Pair Inr f assms(1) show ?thesis by (simp add: io_bind_def)
  qed
qed

lemma options_loop_logs: "list_all is_log (snd (options_loop ks defaults sub acc))"
proof (induction ks arbitrary: acc)
  case Nil
  show ?case by (simp add: io_return_def)
next
  case (Cons k ks)
  show ?case
    by (auto intro!: io_bind_logs simp: io_lift_def io_emit_def Cons.IH)
qed

lemma options_loop_returns:
  assumes "distinct (map fst acc @ ks)" and "set ks \<subseteq> fst ` set defaults"
    and "options_loop ks defaults sub acc = (Inr r, t)"
  shows "map fst r = map fst acc @ ks
     \<and> (\<forall>k. map_of r k =
           (if k \<in> set ks
            then (case map_of (fields_of sub) k of None \<Rightarrow> map_of defaults k | Some v \<Rightarrow> Some v)
            else map_of acc k))"
  using assms
proof (induction ks arbitrary: acc r t)
  case Nil
  then show ?case by (simp add: io_return_def)
next
  case (Cons k ks)
  from Cons.prems(2) obtain dv where dv: "map_of defaults k = Some dv"
    by (metis domD dom_map_of_conv_image_fst list.set_intros(1) subsetD)
  have fresh: "k \<notin> fst ` set acc" and kn: "k \<notin> set ks"
    using Cons.prems(1) by auto
  have "\<exists>v t'. options_loop ks defaults sub (setitem acc k v) = (Inr r, t')
          \<and> Some v = (case map_of (fields_of sub) k of None \<Rightarrow> Some dv | Some x \<Rightarrow> Some x)"
  proof (cases "py_in k sub")
    case (Inl e)
    with Cons.prems(3) show ?thesis by (simp add: io_defs)
  next
    case (Inr present)
    show ?thesis
    proof (cases present)
      case False
      have none: "map_of (fields_of sub) k = None"
        using Inr False by (simp add: py_in_False)
      obtain r' t' where o: "options_loop ks defaults sub (setitem acc k dv) = (r', t')"
        by (cases "options_loop ks defaults sub (setitem acc k dv)")
      with Cons.prems(3) Inr False dv have "r' = Inr r"
        by (simp add: io_defs getitem_def)
      with o none show ?thesis by auto
    next
      case True
      with Cons.prems(3) Inr obtain x where x: "py_getitem sub k = Inr x"
        by (cases "py_getitem sub k") (simp_all add: io_defs)
      have some: "map_of (fields_of sub) k = Some x"
        using x by (rule py_getitem_Inr)
      obtain r' t' where o: "options_loop ks defaults sub (setitem acc k x) = (r', t')"
        by (cases "options_loop ks defaults sub (setitem acc k x)")
      with Cons.prems(3) Inr True x have "r' = Inr r"
        by (simp add: io_defs)
      with o some show ?thesis by auto
    qed
  qed
  then obtain v t' where
    step: "options_loop ks defaults sub (setitem acc k v) = (Inr r, t')" and
    v: "Some v = (case map_of (fields_of sub) k of None \<Rightarrow> Some dv | Some x \<Rightarrow> Some x)"
    by blast
  have d: "distinct (map fst (setitem acc k v) @ ks)"
    using Cons.prems(1) by (simp add: setitem_fresh[OF fresh])
  have sub: "set ks \<subseteq> fst ` set defaults" using Cons.prems(2) by simp
  from Cons.IH[OF d sub step]
  have keys: "map fst r = map fst (setitem acc k v) @ ks"
    and vals: "\<forall>k'. map_of r k' =
           (if k' \<in> set ks
            then (case map_of (fields_of sub) k' of None \<Rightarrow> map_of defaults k' | Some v \<Rightarrow> Some v)
            else map_of (setitem acc k v) k')"
    by blast+
  have "map fst r = map fst acc @ k # ks"
    using keys by (simp add: setitem_fresh[OF fresh])
  moreover have "map_of r k' =
           (if k' \<in> set (k # ks)
            then (case map_of (fields_of sub) k' of None \<Rightarrow> map_of defaults k' | Some v \<Rightarrow> Some v)
            else map_of acc k')" for k'
    using vals kn v dv by (auto simp: map_of_setitem split: option.splits)
  ultimately show ?case by blast
qed

lemma options_loop_mapping:
  "set ks \<subseteq> fst ` set defaults \<Longrightarrow> \<exists>r t. options_loop ks defaults (PDict d) acc = (Inr r, t)"
proof (induction ks arbitrary: acc)
  case Nil
  show ?case by (simp add: io_return_def)
next
  case (Cons k ks)
  from Cons.prems obtain dv where dv: "map_of defaults k = Some dv"
    by (metis domD dom_map_of_conv_image_fst list.set_intros(1) subsetD)
  have sub: "set ks \<subseteq> fst ` set defaults" using Cons.prems by simp
  show ?case
  proof (cases "map_of d k")
    case None
    from Cons.IH[OF sub, of "setitem acc k dv"] obtain r t where
      "options_loop ks defaults (PDict d) (setitem acc k dv) = (Inr r, t)" by blast
    with None dv have "options_loop (k # ks) defaults (PDict d) acc
        = (Inr r, Log Debug (''Using default for MySQL '' @ k) # t)"
      by (simp add: contains_def getitem_def io_defs)
    then show ?thesis by blast
  next
    case (Some x)
    from Cons.IH[OF sub, of "setitem acc k x"] obtain r t where
      "options_loop ks defaults (PDict d) (setitem acc k x) = (Inr r, t)" by blast
    with Some have "options_loop (k # ks) defaults (PDict d) acc = (Inr r, t)"
      by (simp add: contains_def getitem_def io_defs)
    then show ?thesis by blast
  qed
qed

lemma get_mysql_options_logs:
  "list_all is_log (snd (get_mysql_options module_opts options_key options custom_defaults))"
  by (auto intro!: io_bind_logs simp: get_mysql_options_def Let_def io_return_def options_loop_logs)

lemma get_mysql_options_returns:
  assumes "get_mysql_options module_opts options_key options custom_defaults = (Inr x, t)"
  shows "\<exists>r. x = Some r
     \<and> map fst r = map fst (get_mysql_defaults custom_defaults)
     \<and> (\<forall>k. map_of r k =
          (if contains (get_mysql_defaults custom_defaults) k
           then (case map_of (fields_of (dict_get module_opts options_key (PDict []))) k of
                   None \<Rightarrow> map_of (get_mysql_defaults custom_defaults) k
                 | Some v \<Rightarrow> Some v)
           else None))"
proof -
  let ?d = "get_mysql_defaults custom_defaults"
  let ?sub = "dict_get module_opts options_key (PDict [])"
  obtain r' t' where o: "options_loop (map fst ?d) ?d ?sub [] = (r', t')"
    by (cases "options_loop (map fst ?d) ?d ?sub []")
  with assms obtain r where r: "r' = Inr r" "x = Some r"
    by (cases r') (simp_all add: get_mysql_options_def Let_def io_defs)
  have "distinct (map fst ([]::dict) @ map fst ?d)" by (simp add: distinct_defaults)
  moreover have "set (map fst ?d) \<subseteq> fst ` set ?d" by simp
  ultimately have "map fst r = map fst ([]::dict) @ map fst ?d
     \<and> (\<forall>k. map_of r k =
           (if k \<in> set (map fst ?d)
            then (case map_of (fields_of ?sub) k of None \<Rightarrow> map_of ?d k | Some v \<Rightarrow> Some v)
            else map_of ([]::dict) k))"
    using o r(1) by (intro options_loop_returns) auto
  with r(2) show ?thesis by (auto simp: contains_iff)
qed

lemma get_mysql_options_mapping:
  assumes "is_mapping (dict_get module_opts options_key (PDict []))"
  shows "\<exists>r t. get_mysql_options module_opts options_key options custom_defaults
            = (Inr (Some r), t)"
proof -
  let ?d = "get_mysql_defaults custom_defaults"
  from assms obtain d where d: "dict_get module_opts options_key (PDict []) = PDict d"
    by (cases "dict_get module_opts options_key (PDict [])") simp_all
  have "set (map fst ?d) \<subseteq> fst ` set ?d" by simp
  from options_loop_mapping[OF this, of d "[]"] obtain r t where
    "options_loop (map fst ?d) ?d (PDict d) [] = (Inr r, t)" by blast
  then have "get_mysql_options module_opts options_key options custom_defaults
               = (Inr (Some r), t)"
    by (simp add: get_mysql_options_def Let_def d io_defs)
  then show ?thesis by blast
qed

subsection \<open>Precedence of the three sources\<close>

text \<open>
  Claim C4.  For every recognised field, that is every key of the built-in defaults or of
  the custom defaults, the resolved value is the value of the runtime subsection when the
  subsection has the field, otherwise the custom default when there is one, otherwise
  the built-in default.
\<close>

theorem resolved_value_precedence:
  assumes "get_mysql_options module_opts options_key options custom_defaults = (Inr (Some resolved), t)"
    and "distinct (map fst (or_empty custom_defaults))"
    and "contains builtin_defaults attr \<or> contains (or_empty custom_defaults) attr"
  shows "getitem resolved attr =
      (if contains (fields_of (dict_get module_opts options_key (PDict []))) attr
         then getitem (fields_of (dict_get module_opts options_key (PDict []))) attr
       else if contains (or_empty custom_defaults) attr
         then getitem (or_empty custom_defaults) attr
       else getitem builtin_defaults attr)"
proof -
  have rec: "contains (get_mysql_defaults custom_defaults) attr"
    using assms(3) by (simp add: contains_defaults)
  from get_mysql_options_returns[OF assms(1)]
  have "map_of resolved attr =
          (case map_of (fields_of (dict_get module_opts options_key (PDict []))) attr of
             None \<Rightarrow> map_of (get_mysql_defaults custom_defaults) attr
           | Some v \<Rightarrow> Some v)"
    using rec by auto
  then show ?thesis
    by (auto simp: getitem_def contains_def map_of_defaults[OF assms(2)] map_add_def
             split: option.splits)
qed

theorem resolved_value_precedence_witness:
  "\<exists>resolved t.
     get_mysql_options example_opts (Some ''mysql_auth'') None (Some auth_defaults)
       = (Inr (Some resolved), t)
     \<and> getitem resolved ''hostname'' = Inr (PStr ''db1'')
     \<and> getitem resolved ''auth_sql'' = getitem auth_defaults ''auth_sql''
     \<and> getitem resolved ''port'' = Inr (PInt 3306)"
proof -
  have "is_mapping (dict_get example_opts (Some ''mysql_auth'') (PDict []))"
    by (simp add: example_opts_def dict_get_def)
  then obtain resolved t where
    eq: "get_mysql_options example_opts (Some ''mysql_auth'') None (Some auth_defaults)
           = (Inr (Some resolved), t)"
    using get_mysql_options_mapping by blast
  have d: "distinct (map fst (or_empty (Some auth_defaults)))"
    by (simp add: or_empty_def auth_defaults_def)
  have "contains builtin_defaults ''hostname'' \<or> contains (or_empty (Some auth_defaults)) ''hostname''"
    by (simp add: contains_def builtin_defaults_def)
  from resolved_value_precedence[OF eq d this]
  have 1: "getitem resolved ''hostname'' = Inr (PStr ''db1'')"
    by (simp add: example_opts_def dict_defs)
  have "contains builtin_defaults ''auth_sql'' \<or> contains (or_empty (Some auth_defaults)) ''auth_sql''"
    by (simp add: contains_def or_empty_def auth_defaults_def)
  from resolved_value_precedence[OF eq d this]
  have 2: "getitem resolved ''auth_sql'' = getitem auth_defaults ''auth_sql''"
    by (simp add: example_opts_def dict_defs or_empty_def auth_defaults_def)
  have "contains builtin_defaults ''port'' \<or> contains (or_empty (Some auth_defaults)) ''port''"
    by (simp add: contains_def builtin_defaults_def)
  from resolved_value_precedence[OF eq d this]
  have 3: "getitem resolved ''port'' = Inr (PInt 3306)"
    by (simp add: example_opts_def dict_defs or_empty_def auth_defaults_def builtin_defaults_def)
  from eq 1 2 3 show ?thesis by blast
qed

subsection \<open>Completeness of the resolved options\<close>

lemma alist_eqI:
  "map fst xs = map fst ys \<Longrightarrow> distinct (map fst xs) \<Longrightarrow> (\<forall>k. map_of xs k = map_of ys k) \<Longrightarrow> xs = ys"
proof (induction xs arbitrary: ys)
  case Nil
  then show ?case by simp
next
  case (Cons x xs)
  then obtain y ys' where ys: "ys = y # ys'" by (cases ys) auto
  have k: "fst x = fst y" and ks: "map fst xs = map fst ys'"
    using Cons.prems(1) ys by auto
  have "map_of (x # xs) (fst x) = map_of (y # ys') (fst x)"
    using Cons.prems(3) ys by blast
  then have v: "snd x = snd y" by (simp add: k)
  have "map_of xs k' = map_of ys' k'" for k'
  proof (cases "k' = fst x")
    case True
    then have "k' \<notin> fst ` set xs" using Cons.prems(2) by auto
    moreover have "k' \<notin> fst ` set ys'" using True Cons.prems(2) ks
      by (metis distinct.simps(2) image_set list.simps(9))
    ultimately have "map_of xs k' = None" and "map_of ys' k' = None"
      by (simp_all add: map_of_eq_None_iff)
    then show ?thesis by simp
  next
    case False
    have "map_of (x # xs) k' = map_of (y # ys') k'" using Cons.prems(3) ys by blast
    then show ?thesis using False k by (cases x, cases y) (auto split: if_splits)
  qed
  then have "xs = ys'" using Cons.IH[OF ks] Cons.prems(2) by simp
  then show ?case using k v ys by (simp add: prod_eq_iff)
qed

text \<open>
  Claim C5 says that \<open>get_mysql_options\<close> succeeds for every runtime configuration.  It
  does not when the subsection is present and is not a mapping: for an empty block of
  the configuration file, which is read as \<^verbatim>\<open>None\<close>, the membership test
  \<^verbatim>\<open>attr not in _opts\<close> of line 94 raises \<^verbatim>\<open>TypeError\<close>.
\<close>

theorem get_mysql_options_empty_block:
  "fst (get_mysql_options empty_block_opts (Some ''mysql_auth'') None (Some auth_defaults))
     = Inl TypeError"
  by (simp add: resolver_defs dict_defs io_defs empty_block_opts_def)

text \<open>
  Claim C5, as amended.  For every configuration whose subsection under the options key
  is absent or is a mapping, and every custom-default mapping, \<open>get_mysql_options\<close>
  returns a dictionary and raises nothing, and the eight built-in fields are keys of the
  result.  When the configuration has no subsection under the options key, the result is
  exactly the built-in defaults merged with the custom defaults: the same keys in the
  same order with the same values.
\<close>

theorem get_mysql_options_complete:
  assumes "is_mapping (dict_get module_opts options_key (PDict []))"
  shows "\<exists>resolved t.
     get_mysql_options module_opts options_key options custom_defaults = (Inr (Some resolved), t)
     \<and> list_all (contains resolved)
          [''hostname'', ''username'', ''password'', ''database'', ''port'',
           ''unix_socket'', ''charset'', ''ssl'']
     \<and> ((\<forall>k. options_key = Some k \<longrightarrow> map_of module_opts k = None)
          \<longrightarrow> resolved = get_mysql_defaults custom_defaults)"
proof -
  let ?d = "get_mysql_defaults custom_defaults"
  obtain r t where
    eq: "get_mysql_options module_opts options_key options custom_defaults = (Inr (Some r), t)"
    using get_mysql_options_mapping[OF assms] by blast
  from get_mysql_options_returns[OF eq]
  have keys: "map fst r = map fst ?d"
    and vals: "\<forall>k. map_of r k =
          (if contains ?d k
           then (case map_of (fields_of (dict_get module_opts options_key (PDict []))) k of
                   None \<Rightarrow> map_of ?d k
                 | Some v \<Rightarrow> Some v)
           else None)"
    by auto
  have builtin: "contains r k" if "contains builtin_defaults k" for k
  proof -
    have "contains ?d k" using that by (simp add: contains_defaults)
    then have "k \<in> fst ` set ?d" by (simp add: contains_iff)
    then have "k \<in> set (map fst r)" by (simp add: keys)
    then show ?thesis by (simp add: contains_iff)
  qed
  have "list_all (contains r) (map fst builtin_defaults)"
    using builtin by (simp add: list_all_iff contains_iff)
  then have fields: "list_all (contains r)
          [''hostname'', ''username'', ''password'', ''database'', ''port'',
           ''unix_socket'', ''charset'', ''ssl'']"
    by (simp add: builtin_defaults_def)
  have "r = ?d" if "\<forall>k. options_key = Some k \<longrightarrow> map_of module_opts k = None"
  proof -
    have "dict_get module_opts options_key (PDict []) = PDict []"
      using that by (cases options_key) (simp_all add: dict_get_def)
    then have "\<forall>k. map_of r k = map_of ?d k"
      using vals by (auto simp: contains_def)
    then show ?thesis
      using alist_eqI[OF keys] distinct_defaults[of custom_defaults] keys by simp
  qed
  with eq fields show ?thesis by blast
qed

theorem get_mysql_options_complete_witness:
  "is_mapping (dict_get [] (Some ''mysql_auth'') (PDict []))
   \<and> (\<exists>resolved t.
     get_mysql_options [] (Some ''mysql_auth'') None (Some auth_defaults) = (Inr (Some resolved), t)
     \<and> list_all (contains resolved)
          [''hostname'', ''username'', ''password'', ''database'', ''port'',
           ''unix_socket'', ''charset'', ''ssl'']
     \<and> resolved = builtin_defaults @ auth_defaults)"
proof -
  have m: "is_mapping (dict_get [] (Some ''mysql_auth'') (PDict []))"
    by (simp add: dict_get_def)
  from get_mysql_options_complete[OF m, of None "Some auth_defaults"] m
  show ?thesis
    by (simp add: get_mysql_defaults_def dict_update_def setitem_def builtin_defaults_def
                  auth_defaults_def)
qed

subsection \<open>Unknown fields of the subsection\<close>

text \<open>
  Claim C6.  A key of the runtime subsection that is neither a key of the built-in
  defaults nor a key of the custom defaults is not a key of the resolved options.
\<close>

theorem unrecognized_fields_dropped:
  assumes "get_mysql_options module_opts options_key options custom_defaults = (Inr (Some resolved), t)"
    and "contains (fields_of (dict_get module_opts options_key (PDict []))) attr"
    and "\<not> contains builtin_defaults attr"
    and "\<not> contains (or_empty custom_defaults) attr"
  shows "\<not> contains resolved attr"
proof -
  have "\<not> contains (get_mysql_defaults custom_defaults) attr"
    using assms(3,4) by (simp add: contains_defaults)
  with get_mysql_options_returns[OF assms(1)]
  have "map_of resolved attr = None" by auto
  then show ?thesis by (simp add: contains_def)
qed

theorem unrecognized_fields_dropped_witness:
  "\<exists>resolved t.
     get_mysql_options example_opts (Some ''mysql_auth'') None (Some auth_defaults)
       = (Inr (Some resolved), t)
     \<and> contains (fields_of (dict_get example_opts (Some ''mysql_auth'') (PDict []))) ''comment''
     \<and> \<not> contains resolved ''comment''"
proof -
  have "is_mapping (dict_get example_opts (Some ''mysql_auth'') (PDict []))"
    by (simp add: example_opts_def dict_get_def)
  then obtain resolved t where
    eq: "get_mysql_options example_opts (Some ''mysql_auth'') None (Some auth_defaults)
           = (Inr (Some resolved), t)"
    using get_mysql_options_mapping by blast
  have a: "contains (fields_of (dict_get example_opts (Some ''mysql_auth'') (PDict []))) ''comment''"
    by (simp add: example_opts_def dict_get_def contains_def)
  have b: "\<not> contains builtin_defaults ''comment''"
    by (simp add: contains_def builtin_defaults_def)
  have c: "\<not> contains (or_empty (Some auth_defaults)) ''comment''"
    by (simp add: contains_def or_empty_def auth_defaults_def)
  from unrecognized_fields_dropped[OF eq a b c] eq a show ?thesis by blast
qed

subsection \<open>The parameter \<open>options\<close>\<close>

text \<open>
  Claim C10.  The result of \<open>get_mysql_options\<close>, log lines included, does not depend on
  its parameter \<open>options\<close>: two calls that agree on the module-level \<^verbatim>\<open>__opts__\<close>, on
  the options key and on the custom defaults return the same.
\<close>

theorem options_parameter_ignored:
  "get_mysql_options module_opts options_key options custom_defaults
     = get_mysql_options module_opts options_key options' custom_defaults"
  by (simp add: get_mysql_options_def)

text \<open>
  A subsection handed over in \<open>options\<close> alone is not read, while the same subsection in
  the module-level configuration is.
\<close>

theorem options_parameter_ignored_witness:
  "get_mysql_options [] (Some ''mysql_auth'') (Some example_opts) (Some auth_defaults)
     = get_mysql_options [] (Some ''mysql_auth'') None (Some auth_defaults)
   \<and> get_mysql_options example_opts (Some ''mysql_auth'') None (Some auth_defaults)
     \<noteq> get_mysql_options [] (Some ''mysql_auth'') None (Some auth_defaults)"
proof -
  have "get_mysql_options example_opts (Some ''mysql_auth'') None (Some auth_defaults)
     \<noteq> get_mysql_options [] (Some ''mysql_auth'') None (Some auth_defaults)"
    by (simp add: resolver_defs dict_defs io_defs example_opts_def)
  with options_parameter_ignored[of "[]" "Some ''mysql_auth''" "Some example_opts"
         "Some auth_defaults" None]
  show ?thesis by blast
qed

section \<open>The authenticator\<close>

subsection \<open>The resolved options reach the driver\<close>

lemma resolved_key:
  assumes "get_mysql_options module_opts options_key options custom_defaults = (Inr (Some r), t)"
    and "contains (get_mysql_defaults custom_defaults) k"
  shows "\<exists>v. getitem r k = Inr v"
proof -
  have "k \<in> fst ` set (get_mysql_defaults custom_defaults)"
    using assms(2) by (simp add: contains_iff)
  moreover have "map fst r = map fst (get_mysql_defaults custom_defaults)"
    using get_mysql_options_returns[OF assms(1)] by auto
  ultimately have "k \<in> fst ` set r" by (metis image_set)
  then have "map_of r k \<noteq> None" by (simp add: map_of_eq_None_iff)
  then show ?thesis by (auto simp: getitem_def)
qed

lemma connect_call_resolved:
  assumes "get_mysql_options module_opts options_key options custom_defaults = (Inr (Some r), t)"
  shows "\<exists>args. connect_call f r = (f args, [DbConnect args (f args)])"
proof -
  have b: "contains (get_mysql_defaults custom_defaults) ''hostname''"
    "contains (get_mysql_defaults custom_defaults) ''username''"
    "contains (get_mysql_defaults custom_defaults) ''password''"
    "contains (get_mysql_defaults custom_defaults) ''database''"
    "contains (get_mysql_defaults custom_defaults) ''port''"
    "contains (get_mysql_defaults custom_defaults) ''unix_socket''"
    "contains (get_mysql_defaults custom_defaults) ''ssl''"
    by (simp_all add: contains_defaults) (simp_all add: contains_def builtin_defaults_def)
  from b[THEN resolved_key[OF assms]]
  obtain v1 v2 v3 v4 v5 v6 v7 where
    "getitem r ''hostname'' = Inr v1" "getitem r ''username'' = Inr v2"
    "getitem r ''password'' = Inr v3" "getitem r ''database'' = Inr v4"
    "getitem r ''port'' = Inr v5" "getitem r ''unix_socket'' = Inr v6"
    "getitem r ''ssl'' = Inr v7"
    by blast
  then have "connect_call f r = (f [v1, v2, v3, v4, v5, v6, v7],
      [DbConnect [v1, v2, v3, v4, v5, v6, v7] (f [v1, v2, v3, v4, v5, v6, v7])])"
    by (simp add: connect_call_def io_defs Let_def)
  then show ?thesis by blast
qed

lemma auth_sql_resolved:
  assumes "get_mysql_options module_opts options_key options (Some auth_defaults) = (Inr (Some r), t)"
  shows "\<exists>v. getitem r ''auth_sql'' = Inr v"
proof -
  have "contains (get_mysql_defaults (Some auth_defaults)) ''auth_sql''"
    by (simp add: contains_defaults or_empty_def) (simp add: contains_def auth_defaults_def)
  with assms show ?thesis by (rule resolved_key)
qed

text \<open>What \<open>connect\<close> does with resolved options, by client and by what the driver gives.\<close>

lemma connect_outcomes:
  assumes "get_mysql_options module_opts options_key options custom_defaults
             = (Inr (Some r), t)"
  shows "connect w (Some r) = (Inl (NameError ''OperationalError''), [])
     \<or> (\<exists>args msg. connect w (Some r)
           = (Inr ConnFalse, [DbConnect args (Inl (OperationalError msg)), Log Error msg]))
     \<or> (\<exists>args e. connect w (Some r) = (Inl e, [DbConnect args (Inl e)]))
     \<or> (\<exists>args c. connect w (Some r) = (Inr (Conn c), [DbConnect args (Inr c)]))"
proof (cases "client w")
  case No_client
  then have "connect w (Some r) = (Inl (NameError ''OperationalError''), [])"
    by (simp add: connect_def io_defs)
  then show ?thesis by blast
next
  case (MySQLdb_client f)
  obtain args where cc: "connect_call f r = (f args, [DbConnect args (f args)])"
    using connect_call_resolved[OF assms] by blast
  show ?thesis
  proof (cases "f args")
    case (Inr c)
    then have "connect w (Some r) = (Inr (Conn c), [DbConnect args (Inr c)])"
      by (simp add: connect_def MySQLdb_client cc)
    then show ?thesis by blast
  next
    case (Inl e)
    show ?thesis
    proof (cases "\<exists>msg. e = OperationalError msg")
      case True
      then obtain msg where e: "e = OperationalError msg" by blast
      have "connect w (Some r)
         = (Inr ConnFalse, [DbConnect args (Inl (OperationalError msg)), Log Error msg])"
        by (simp add: connect_def MySQLdb_client cc Inl e)
      then show ?thesis by blast
    next
      case False
      then have "connect w (Some r) = (Inl e, [DbConnect args (Inl e)])"
        by (cases e) (simp_all add: connect_def MySQLdb_client cc Inl)
      then show ?thesis by blast
    qed
  qed
next
  case (PyMySQL_client f)
  obtain args where cc: "connect_call f r = (f args, [DbConnect args (f args)])"
    using connect_call_resolved[OF assms] by blast
  show ?thesis
  proof (cases "f args")
    case (Inr c)
    then have "connect w (Some r) = (Inr (Conn c), [DbConnect args (Inr c)])"
      by (simp add: connect_def PyMySQL_client cc)
    then show ?thesis by blast
  next
    case (Inl e)
    then have "connect w (Some r) = (Inl e, [DbConnect args (Inl e)])"
      by (simp add: connect_def PyMySQL_client cc)
    then show ?thesis by blast
  qed
qed

subsection \<open>The paths through \<open>auth\<close>\<close>

text \<open>
  Every run of \<open>auth\<close> takes one of six paths: the resolution of the options raised; no
  client library was imported and \<open>connect\<close> fails on the undefined name; the driver
  refused the connection with an operational error that \<open>connect\<close> caught; the driver
  raised an exception that \<open>connect\<close> did not catch; a connection was obtained but the
  query stage raised; or the query was executed and the row count decided.  The events
  before the call to the driver are log lines.
\<close>

lemma auth_paths:
  obtains
    (options_raised) t0 e where
      "auth w username password = (Inl e, t0)"
      "list_all is_log t0"
  | (refused) t0 args msg where
      "auth w username password =
         (Inr False, t0 @ [DbConnect args (Inl (OperationalError msg)), Log Error msg,
                           Log Error ''MySQL connection failed''])"
      "list_all is_log t0"
  | (connect_raised) t0 args e where
      "auth w username password = (Inl e, t0 @ [DbConnect args (Inl e)])"
      "list_all is_log t0"
  | (query_raised) t0 args c t2 e where
      "auth w username password = (Inl e, t0 @ [DbConnect args (Inr c), DbCursor c] @ t2)"
      "list_all is_log t0" "t2 = [] \<or> (\<exists>cur q. t2 = [DbExecute cur q])"
  | (decided) t0 args c cur q n where
      "auth w username password =
         (Inr (n = 1), t0 @ [DbConnect args (Inr c), DbCursor c, DbExecute cur q])"
      "list_all is_log t0" "cursor_execute w cur q = Inr n"
proof -
  obtain x t0 where
    go: "get_mysql_options (utils_opts w) (Some ''mysql_auth'') (Some (auth_opts w))
           (Some auth_defaults) = (x, t0)"
    by (cases "get_mysql_options (utils_opts w) (Some ''mysql_auth'') (Some (auth_opts w))
           (Some auth_defaults)")
  have logs: "list_all is_log t0"
    using get_mysql_options_logs[of "utils_opts w" "Some ''mysql_auth''" "Some (auth_opts w)"
            "Some auth_defaults"] go by simp
  show thesis
  proof (cases x)
    case (Inl e)
    then have "auth w username password = (Inl e, t0)"
      by (simp add: auth_def go io_defs)
    then show thesis using logs by (rule options_raised)
  next
    case (Inr y)
    then obtain options where
      eq: "get_mysql_options (utils_opts w) (Some ''mysql_auth'') (Some (auth_opts w))
             (Some auth_defaults) = (Inr (Some options), t0)"
      using get_mysql_options_returns[of "utils_opts w" "Some ''mysql_auth''"
              "Some (auth_opts w)" "Some auth_defaults" y t0] go
      by auto
    from connect_outcomes[OF eq, of w] consider
        (no_client) "connect w (Some options) = (Inl (NameError ''OperationalError''), [])"
      | (caught) args msg where
          "connect w (Some options)
             = (Inr ConnFalse, [DbConnect args (Inl (OperationalError msg)), Log Error msg])"
      | (escaped) args e where
          "connect w (Some options) = (Inl e, [DbConnect args (Inl e)])"
      | (connected) args c where
          "connect w (Some options) = (Inr (Conn c), [DbConnect args (Inr c)])"
      by blast
    then show thesis
    proof cases
      case no_client
      then have "auth w username password = (Inl (NameError ''OperationalError''), t0)"
        by (simp add: auth_def eq io_defs)
      then show thesis using logs by (rule options_raised)
    next
      case (caught args msg)
      then have "auth w username password =
           (Inr False, t0 @ [DbConnect args (Inl (OperationalError msg)), Log Error msg,
                           Log Error ''MySQL connection failed''])"
        by (simp add: auth_def eq io_defs)
      then show thesis using logs by (rule refused)
    next
      case (escaped args e)
      then have "auth w username password = (Inl e, t0 @ [DbConnect args (Inl e)])"
        by (simp add: auth_def eq io_defs)
      then show thesis using logs by (rule connect_raised)
    next
      case (connected args c)
      obtain tv where tv: "getitem options ''auth_sql'' = Inr tv"
        using auth_sql_resolved[OF eq] by blast
      define fm where "fm = (case tv of PStr t \<Rightarrow> py_format t [username, password]
                                  | _ \<Rightarrow> Inl AttributeError)"
      have fm: "(case tv of PStr t \<Rightarrow> io_lift (py_format t [username, password])
                          | _ \<Rightarrow> io_raise AttributeError) = (fm, [])"
        by (cases tv) (simp_all add: fm_def io_defs)
      show thesis
      proof (cases "conn_cursor w c")
        case (Inl e)
        then have "auth w username password
            = (Inl e, t0 @ [DbConnect args (Inr c), DbCursor c] @ [])"
          by (simp add: auth_def eq connected io_defs)
        then show thesis using logs by (rule query_raised) simp
      next
        case cur: (Inr cur)
        show thesis
        proof (cases fm)
          case (Inl e)
          then have "auth w username password
              = (Inl e, t0 @ [DbConnect args (Inr c), DbCursor c] @ [])"
            using fm by (simp add: auth_def eq connected cur tv io_defs)
          then show thesis using logs by (rule query_raised) simp
        next
          case q: (Inr q)
          show thesis
          proof (cases "cursor_execute w cur q")
            case (Inl e)
            then have "auth w username password =
                (Inl e, t0 @ [DbConnect args (Inr c), DbCursor c] @ [DbExecute cur q])"
              using fm by (simp add: auth_def eq connected cur tv q io_defs)
            then show thesis using logs by (rule query_raised) simp
          next
            case n: (Inr n)
            then have "auth w username password =
               (Inr (n = 1), t0 @ [DbConnect args (Inr c), DbCursor c, DbExecute cur q])"
              using fm by (simp add: auth_def eq connected cur tv q io_defs)
            then show thesis using logs n by (rule decided)
          qed
        qed
      qed
    qed
  qed
qed

subsection \<open>Traces\<close>



subsection \<open>The module as shipped\<close>

text \<open>
  A call of the shipped module has no effect and no result but the exception: it makes
  no verdict, calls the driver for nothing, and returns neither false nor \<^verbatim>\<open>None\<close>.
  What is shown below of \<open>auth\<close> about what the source lacks (a handler around the
  query, a call to \<^verbatim>\<open>close\<close>, a way to take the early return) is therefore true of the
  shipped module too.
\<close>

lemma auth_shipped_raises:
  "auth_shipped w username password = (Inl SyntaxError, [])"
  by (simp add: auth_shipped_def io_raise_def)

subsection \<open>Concrete runs\<close>

lemma auth_world_rows:
  "auth (world_rows n) ''diana'' ''secret''
     = (Inr (n = 1),
        default_log @ [DbConnect default_connect_args (Inr 1), DbCursor 1, DbExecute 1 diana_query])"
  by (simp add: world_rows_def auth_defs resolver_defs dict_defs io_defs fmt_defs
                default_log_def default_connect_args_def diana_query_def)

lemma auth_world_diana:
  "auth world_diana ''diana'' ''secret''
     = (Inr True,
        default_log @ [DbConnect default_connect_args (Inr 1), DbCursor 1, DbExecute 1 diana_query])"
  by (simp add: world_diana_def auth_defs resolver_defs dict_defs io_defs fmt_defs
                default_log_def default_connect_args_def diana_query_def)

lemma auth_world_diana_wrong:
  "fst (auth world_diana ''diana'' ''wrong'') = Inr False"
  by (simp add: world_diana_def auth_defs resolver_defs dict_defs io_defs fmt_defs diana_query_def)

lemma auth_world_refused:
  "auth world_refused ''diana'' ''secret''
     = (Inr False,
        default_log @
        [DbConnect default_connect_args (Inl (OperationalError ''(1045, Access denied)'')),
         Log Error ''(1045, Access denied)'', Log Error ''MySQL connection failed''])"
  by (simp add: world_refused_def auth_defs resolver_defs dict_defs io_defs fmt_defs
                default_log_def default_connect_args_def)

lemma auth_world_refused_fallback:
  "auth world_refused_fallback ''diana'' ''secret''
     = (Inl (OperationalError ''(1045, Access denied)''),
        default_log @
        [DbConnect default_connect_args (Inl (OperationalError ''(1045, Access denied)''))])"
  by (simp add: world_refused_fallback_def auth_defs resolver_defs dict_defs io_defs fmt_defs
                default_log_def default_connect_args_def)

lemma auth_world_query_fails:
  "auth world_query_fails ''diana'' ''secret''
     = (Inl (DriverError ''ProgrammingError''),
        default_log @ [DbConnect default_connect_args (Inr 1), DbCursor 1, DbExecute 1 diana_query])"
  by (simp add: world_query_fails_def auth_defs resolver_defs dict_defs io_defs fmt_defs
                default_log_def default_connect_args_def diana_query_def)

lemma auth_world_bad_template:
  "fst (auth world_bad_template ''diana'' ''secret'') = Inl IndexError"
  by (simp add: world_bad_template_def auth_defs resolver_defs dict_defs io_defs fmt_defs)

subsection \<open>The verdict\<close>

text \<open>
  With the colon supplied, the verdict follows the row count: when the options are
  resolved, the connection is opened, a cursor is obtained and the query built from the
  template is executed leaving a row count, \<open>auth\<close> returns true exactly when that row
  count is 1.
\<close>

lemma auth_colon_supplied_verdict:
  assumes "get_mysql_options (utils_opts w) (Some ''mysql_auth'') (Some (auth_opts w))
             (Some auth_defaults) = (Inr (Some options), t0)"
    and "connect w (Some options) = (Inr (Conn c), t1)"
    and "conn_cursor w c = Inr cur"
    and "getitem options ''auth_sql'' = Inr (PStr template)"
    and "py_format template [username, password] = Inr query"
    and "cursor_execute w cur query = Inr rowcount"
  shows "fst (auth w username password) = Inr (rowcount = 1)"
  by (simp add: auth_def assms io_defs)

text \<open>
  Claim C1 says that, the connection made, the verdict is true exactly when the query
  returns one row.  The module as shipped returns no verdict at all: it fails to compile
  at line 72, and a call raises \<^verbatim>\<open>SyntaxError\<close> where the claim, and the function with
  the colon supplied, give true for a row count of 1.
\<close>

theorem auth_shipped_gives_no_verdict:
  "fst (auth_shipped (world_rows 1) ''diana'' ''secret'') = Inl SyntaxError
   \<and> fst (auth (world_rows 1) ''diana'' ''secret'') = Inr True"
  by (simp add: auth_shipped_raises auth_world_rows)

subsection \<open>Errors of the query stage\<close>

text \<open>
  Claim C2 asks that an error raised while the query is built or executed be caught and
  turned into the verdict false.  The source wraps only the call that opens the
  connection: the statement \<^verbatim>\<open>cur.execute(...)\<close> stands outside any \<^verbatim>\<open>try\<close>.  With the
  default configuration and a driver that rejects the statement, \<open>auth\<close> raises the
  driver's exception; with a configured template that names a third argument it raises
  \<^verbatim>\<open>IndexError\<close>.
\<close>

theorem auth_query_error_escapes:
  "fst (auth world_query_fails ''diana'' ''secret'') = Inl (DriverError ''ProgrammingError'')
   \<and> fst (auth world_bad_template ''diana'' ''secret'') = Inl IndexError"
  by (simp add: auth_world_query_fails auth_world_bad_template)

subsection \<open>A refused connection\<close>

text \<open>
  Claim C3 says that when the driver refuses the connection with an operational error,
  \<open>auth\<close> logs the error and returns false, and nothing propagates.  The module as
  shipped raises \<^verbatim>\<open>SyntaxError\<close> instead.  With the colon supplied, the claim holds when
  the client is MySQLdb, and fails when the client is PyMySQL: the \<^verbatim>\<open>except\<close> clause of
  \<open>connect\<close> does not match the driver's error, which leaves \<open>connect\<close> and \<open>auth\<close>.
\<close>

theorem auth_refused_connection_escapes:
  "fst (auth_shipped world_refused ''diana'' ''secret'') = Inl SyntaxError
   \<and> fst (auth world_refused_fallback ''diana'' ''secret'')
       = Inl (OperationalError ''(1045, Access denied)'')
   \<and> fst (auth world_refused ''diana'' ''secret'') = Inr False"
  by (simp add: auth_shipped_raises auth_world_refused auth_world_refused_fallback)

subsection \<open>The query that is sent\<close>

text \<open>
  Claim C7 says that the query sent is the template with the user name at its first
  site and the password at its second.  The module as shipped sends no query: it fails
  to compile at line 72 and a call raises before anything reaches the driver.  With the
  colon supplied and the default template, the one query sent has \<^verbatim>\<open>diana\<close> at
  \<^verbatim>\<open>{0}\<close> and \<^verbatim>\<open>secret\<close> at \<^verbatim>\<open>{1}\<close>.
\<close>

theorem auth_shipped_sends_no_query:
  "executed_queries (snd (auth_shipped world_diana ''diana'' ''secret'')) = []
   \<and> fst (auth_shipped world_diana ''diana'' ''secret'') = Inl SyntaxError
   \<and> executed_queries (snd (auth world_diana ''diana'' ''secret'')) = [diana_query]"
  by (simp add: auth_shipped_raises auth_world_diana default_log_def)

subsection \<open>Release of the connection\<close>



subsection \<open>The check for missing options\<close>

text \<open>
  Claim C9.  \<open>get_mysql_options\<close> never returns \<^verbatim>\<open>None\<close>, whatever its arguments and
  the module-level configuration, and the early \<^verbatim>\<open>return False\<close> of \<open>auth\<close> is never
  taken: whenever \<open>auth\<close> returns false, it has called the driver to connect, which
  the early return precedes.
\<close>

theorem options_never_None:
  "fst (get_mysql_options module_opts options_key options custom_defaults) \<noteq> Inr None
   \<and> (fst (auth w username password) = Inr False
        \<longrightarrow> list_ex is_connect (snd (auth w username password)))"
proof -
  have "fst (get_mysql_options module_opts options_key options custom_defaults) \<noteq> Inr None"
    using get_mysql_options_returns[of module_opts options_key options custom_defaults None]
    by (cases "get_mysql_options module_opts options_key options custom_defaults") auto
  moreover have "fst (auth w username password) = Inr False
        \<longrightarrow> list_ex is_connect (snd (auth w username password))"
    by (cases w username password rule: auth_paths) auto
  ultimately show ?thesis by blast
qed

theorem options_never_None_witness:
  "fst (get_mysql_options [] (Some ''mysql_auth'') None None) \<noteq> Inr None
   \<and> fst (auth (world_rows 0) ''diana'' ''secret'') = Inr False
   \<and> list_ex is_connect (snd (auth (world_rows 0) ''diana'' ''secret''))"
proof -
  have h: "fst (auth (world_rows 0) ''diana'' ''secret'') = Inr False"
    by (simp add: auth_world_rows)
  from options_never_None[of "[]" "Some ''mysql_auth''" None None "world_rows 0" "''diana''" "''secret''"] h
  show ?thesis by blast
qed

end
